theory Spec2Isabelle
  imports Complex_Main "HOL-Library.AList" "HOL-Library.Multiset"
begin

section \<open>The railway power network of \<^verbatim>\<open>Example.py\<close>\<close>

text \<open>
  The development embeds the classes of \<^verbatim>\<open>src/Example.py\<close>: \<^verbatim>\<open>Position\<close>,
  \<^verbatim>\<open>Train\<close>, \<^verbatim>\<open>Substation\<close> and \<^verbatim>\<open>NetworkController\<close>. The
  \<^verbatim>\<open>Solution_*.py\<close> scripts only build a model for an external solver and are not
  embedded.

  Conventions of the embedding:
  \<^item> Python \<^verbatim>\<open>float\<close> values are modelled as \<^typ>\<open>real\<close>: rounding, infinities
    and NaN are not represented.
  \<^item> A Python \<^verbatim>\<open>dict\<close> is an association list in insertion order; assignment to
    an existing key replaces the value in place, assignment to a new key appends
    (\<^const>\<open>AList.update\<close>).
  \<^item> \<^verbatim>\<open>Substation\<close> objects are mutated through references held in the list that
    \<^verbatim>\<open>get_nearest_substations\<close> returns. A reference to a registered substation is
    modelled by the key under which the controller's dictionary holds the object.
  \<^item> \<^verbatim>\<open>print\<close> appends a line to an output list that is threaded through the
    functions that print.
\<close>

subsection \<open>Data\<close>

datatype TrainPhase = CRUISING | COASTING | BRAKING

record PowerConfig =
  cruising_power :: real
  coasting_power :: real
  braking_regeneration :: real

record SubstationConfig =
  max_power :: real
  normal_voltage :: real
  min_voltage :: real
  max_current :: real

text \<open>The field \<^verbatim>\<open>x\<close> of \<^verbatim>\<open>Position\<close> is named \<open>pos_x\<close>, so that \<open>x\<close> stays
  free for variables.\<close>

record Position =
  pos_x :: real

record Train =
  train_id :: string
  power_config :: PowerConfig
  position :: Position
  current_phase :: TrainPhase
  current_section :: "string option"

record Substation =
  sub_id :: string
  config :: SubstationConfig
  position :: Position
  is_congested :: bool
  current_load :: real

record NetworkController =
  substations :: "(string \<times> Substation) list"
  trains :: "(string \<times> Train) list"
  track_length :: real

subsection \<open>Constructors\<close>

definition SubstationConfig_init :: "real \<Rightarrow> SubstationConfig" where
  "SubstationConfig_init mp =
     \<lparr>max_power = mp, normal_voltage = 1.5, min_voltage = 1.0, max_current = 5000\<rparr>"

definition Train_init :: "string \<Rightarrow> PowerConfig \<Rightarrow> Position \<Rightarrow> Train" where
  "Train_init tid pc pos =
     \<lparr>train_id = tid, power_config = pc, Train.position = pos,
      current_phase = CRUISING, current_section = None\<rparr>"

definition Substation_init :: "string \<Rightarrow> SubstationConfig \<Rightarrow> Position \<Rightarrow> Substation" where
  "Substation_init sid cfg pos =
     \<lparr>sub_id = sid, config = cfg, Substation.position = pos,
      is_congested = False, current_load = 0\<rparr>"

definition NetworkController_init :: NetworkController where
  "NetworkController_init = \<lparr>substations = [], trains = [], track_length = 0\<rparr>"

subsection \<open>Position and Train\<close>

definition distance_to :: "Position \<Rightarrow> Position \<Rightarrow> real" where
  "distance_to self other = \<bar>pos_x self - pos_x other\<bar>"

definition get_current_power_draw :: "Train \<Rightarrow> real" where
  "get_current_power_draw self =
     (if current_phase self = CRUISING then cruising_power (power_config self)
      else if current_phase self = COASTING then coasting_power (power_config self)
      else braking_regeneration (power_config self))"

definition move_to :: "Train \<Rightarrow> Position \<Rightarrow> Train" where
  "move_to self new_position = self\<lparr>Train.position := new_position\<rparr>"

subsection \<open>Substation\<close>

definition max_range :: real where
  "max_range = 10"

definition calculate_power_contribution :: "Substation \<Rightarrow> Train \<Rightarrow> real" where
  "calculate_power_contribution self train =
     (let distance = distance_to (Substation.position self) (Train.position train) in
      if distance > max_range then 0
      else
        let power_factor = (max_range - distance) / max_range in
        get_current_power_draw train * power_factor)"

definition update_congestion_status :: "Substation \<Rightarrow> Substation" where
  "update_congestion_status self =
     self\<lparr>is_congested := current_load self > max_power (config self)\<rparr>"

subsection \<open>NetworkController\<close>

definition add_substation :: "NetworkController \<Rightarrow> Substation \<Rightarrow> NetworkController" where
  "add_substation self substation =
     self\<lparr>substations := AList.update (sub_id substation) substation (substations self),
          track_length := max (track_length self) (pos_x (Substation.position substation))\<rparr>"

definition add_train :: "NetworkController \<Rightarrow> Train \<Rightarrow> NetworkController" where
  "add_train self train =
     self\<lparr>trains := AList.update (train_id train) train (trains self)\<rparr>"

text \<open>The loop of \<^verbatim>\<open>get_nearest_substations\<close> that collects the substations within
  \<open>max_distance\<close>, each reference paired with its distance.\<close>

fun nearby_subs_of :: "(string \<times> Substation) list \<Rightarrow> Position \<Rightarrow> real \<Rightarrow> (string \<times> real) list" where
  "nearby_subs_of [] pos max_distance = []"
| "nearby_subs_of ((k, sub) # rest) pos max_distance =
     (let distance = distance_to (Substation.position sub) pos in
      if distance \<le> max_distance then (k, distance) # nearby_subs_of rest pos max_distance
      else nearby_subs_of rest pos max_distance)"

text \<open>Python's \<^verbatim>\<open>sorted\<close> is stable, as is \<^const>\<open>sort_key\<close>.\<close>

definition get_nearest_substations ::
    "NetworkController \<Rightarrow> Position \<Rightarrow> real \<Rightarrow> (string \<times> real) list" where
  "get_nearest_substations self pos max_distance =
     sort_key snd (nearby_subs_of (substations self) pos max_distance)"

text \<open>The default value of the parameter \<^verbatim>\<open>max_distance\<close>.\<close>

definition default_max_distance :: real where
  "default_max_distance = 10"

text \<open>The first loop of \<^verbatim>\<open>update_power_distribution\<close>.\<close>

definition reset_loads :: "(string \<times> Substation) list \<Rightarrow> (string \<times> Substation) list" where
  "reset_loads subs = map (\<lambda>(k, sub). (k, sub\<lparr>current_load := 0\<rparr>)) subs"

text \<open>
  The inner loop of \<^verbatim>\<open>update_power_distribution\<close> over \<^verbatim>\<open>nearby_subs\<close>, with the
  loop variable \<^verbatim>\<open>remaining_power\<close> and the substation objects as state. The
  reference \<open>k\<close> is read in the dictionary; every reference that
  \<^const>\<open>get_nearest_substations\<close> returns is a key of the dictionary, so the
  \<open>None\<close> branch is there only to make the function total.
\<close>

fun distribute_power ::
    "Train \<Rightarrow> (string \<times> real) list \<Rightarrow> real \<Rightarrow> (string \<times> Substation) list
      \<Rightarrow> (string \<times> Substation) list" where
  "distribute_power train [] remaining_power subs = subs"
| "distribute_power train ((k, distance) # rest) remaining_power subs =
     (if remaining_power \<le> 0 then subs
      else
        (case map_of subs k of
           None \<Rightarrow> distribute_power train rest remaining_power subs
         | Some sub \<Rightarrow>
             (let contribution = calculate_power_contribution sub train;
                  actual_contribution = min contribution remaining_power
              in distribute_power train rest (remaining_power - actual_contribution)
                   (AList.update k
                      (sub\<lparr>current_load := current_load sub + actual_contribution\<rparr>) subs))))"

definition out_of_range_warning :: "Train \<Rightarrow> string" where
  "out_of_range_warning train =
     ''Warning: Train '' @ train_id train @ '' is out of range of any substation!''"

text \<open>The body of the loop over the trains: the state is the controller and the lines
  printed so far.\<close>

definition process_train ::
    "Train \<Rightarrow> NetworkController \<times> string list \<Rightarrow> NetworkController \<times> string list" where
  "process_train train st =
     (let self = fst st; out = snd st;
          nearby_subs = get_nearest_substations self (Train.position train) default_max_distance
      in
        if nearby_subs = [] then (self, out @ [out_of_range_warning train])
        else
          let power_draw = get_current_power_draw train;
              remaining_power = power_draw
          in (self\<lparr>substations :=
                     distribute_power train nearby_subs remaining_power (substations self)\<rparr>,
              out))"

fun trains_loop ::
    "Train list \<Rightarrow> NetworkController \<times> string list \<Rightarrow> NetworkController \<times> string list" where
  "trains_loop [] st = st"
| "trains_loop (train # rest) st = trains_loop rest (process_train train st)"

definition update_power_distribution ::
    "NetworkController \<Rightarrow> NetworkController \<times> string list" where
  "update_power_distribution self =
     trains_loop (map snd (trains self))
       (self\<lparr>substations := reset_loads (substations self)\<rparr>, [])"

subsection \<open>One time step of \<^verbatim>\<open>main\<close>\<close>

text \<open>The loop of \<^verbatim>\<open>main\<close> that calls \<^verbatim>\<open>update_congestion_status\<close> on every
  substation of the controller.\<close>

definition update_all_congestion :: "NetworkController \<Rightarrow> NetworkController" where
  "update_all_congestion self =
     self\<lparr>substations := map (\<lambda>(k, sub). (k, update_congestion_status sub)) (substations self)\<rparr>"

text \<open>Lines 181 to 185 of \<^verbatim>\<open>main\<close>: the power distribution, then the congestion
  status of every substation (the status display and the pause are left out).\<close>

definition timestep :: "NetworkController \<Rightarrow> NetworkController \<times> string list" where
  "timestep controller =
     (let st = update_power_distribution controller
      in (update_all_congestion (fst st), snd st))"

subsection \<open>Measuring the load\<close>

text \<open>The sum of the loads of all substations of a dictionary.\<close>

definition total_load :: "(string \<times> Substation) list \<Rightarrow> real" where
  "total_load subs = sum_list (map (\<lambda>p. current_load (snd p)) subs)"

text \<open>The load of the substation registered under \<open>k\<close>.\<close>

definition load_of :: "(string \<times> Substation) list \<Rightarrow> string \<Rightarrow> real" where
  "load_of subs k = (case map_of subs k of None \<Rightarrow> 0 | Some sub \<Rightarrow> current_load sub)"

text \<open>The load attributed to a train at the substation \<open>k\<close>: what one run of the body
  of the loop over the trains adds to that substation's \<^verbatim>\<open>current_load\<close>.\<close>

definition load_attributed :: "Train \<Rightarrow> NetworkController \<Rightarrow> string \<Rightarrow> real" where
  "load_attributed train c k =
     load_of (substations (fst (process_train train (c, [])))) k - load_of (substations c) k"

text \<open>Two entries of the substation dictionary that agree on the key and on every field
  of the substation but \<^verbatim>\<open>current_load\<close>.\<close>

definition same_but_load :: "string \<times> Substation \<Rightarrow> string \<times> Substation \<Rightarrow> bool" where
  "same_but_load p q =
     (fst p = fst q \<and> sub_id (snd p) = sub_id (snd q) \<and> config (snd p) = config (snd q) \<and>
      Substation.position (snd p) = Substation.position (snd q) \<and>
      is_congested (snd p) = is_congested (snd q))"

text \<open>No congestion flag is stale: every flag says whether the load exceeds
  \<^verbatim>\<open>max_power\<close>.\<close>

definition congestion_consistent :: "(string \<times> Substation) list \<Rightarrow> bool" where
  "congestion_consistent subs =
     list_all (\<lambda>p. is_congested (snd p) = (current_load (snd p) > max_power (config (snd p)))) subs"

text \<open>What the time step of \<^verbatim>\<open>main\<close> does to one entry of the substation dictionary
  after the power distribution: the entry \<open>q\<close> is the entry \<open>p\<close> with the same key,
  identifier, configuration, position and load, and its flag says whether the load of
  \<open>p\<close> exceeds \<^verbatim>\<open>max_power\<close>.\<close>

definition congestion_updated :: "string \<times> Substation \<Rightarrow> string \<times> Substation \<Rightarrow> bool" where
  "congestion_updated p q =
     (fst q = fst p \<and> sub_id (snd q) = sub_id (snd p) \<and> config (snd q) = config (snd p) \<and>
      Substation.position (snd q) = Substation.position (snd p) \<and>
      current_load (snd q) = current_load (snd p) \<and>
      is_congested (snd q) = (current_load (snd p) > max_power (config (snd p))))"

subsection \<open>Registration as the specification words it\<close>

text \<open>
  The specification asks that a duplicate identifier fails fast at registration. These
  two functions follow the specification's words, for comparison with
  \<^const>\<open>add_substation\<close> and \<^const>\<open>add_train\<close>, which follow the source.
\<close>

datatype registration_error = DuplicateIdentifier

definition add_substation_fail_fast ::
    "NetworkController \<Rightarrow> Substation \<Rightarrow> registration_error + NetworkController" where
  "add_substation_fail_fast self substation =
     (if sub_id substation \<in> set (map fst (substations self)) then Inl DuplicateIdentifier
      else Inr (add_substation self substation))"

definition add_train_fail_fast ::
    "NetworkController \<Rightarrow> Train \<Rightarrow> registration_error + NetworkController" where
  "add_train_fail_fast self train =
     (if train_id train \<in> set (map fst (trains self)) then Inl DuplicateIdentifier
      else Inr (add_train self train))"

subsection \<open>Configurations\<close>

text \<open>The power configuration that \<^verbatim>\<open>main\<close> derives from the cruising power.\<close>

definition main_power_config :: "real \<Rightarrow> PowerConfig" where
  "main_power_config cruising =
     \<lparr>cruising_power = cruising, coasting_power = cruising * 0.2,
      braking_regeneration = - cruising * 0.15\<rparr>"

text \<open>Substations at 0 and 8 with threshold 100, registered in that order, and one train
  at 4 that draws 10.\<close>

definition two_station_train :: Train where
  "two_station_train = Train_init ''TRAIN_1'' (main_power_config 10) \<lparr>pos_x = 4\<rparr>"

definition two_station_scenario :: NetworkController where
  "two_station_scenario =
     add_train
       (add_substation
          (add_substation NetworkController_init
             (Substation_init ''SUB_1'' (SubstationConfig_init 100) \<lparr>pos_x = 0\<rparr>))
          (Substation_init ''SUB_2'' (SubstationConfig_init 100) \<lparr>pos_x = 8\<rparr>))
       two_station_train"

text \<open>One substation at 0 with threshold 5 and one train at 0 that draws 6.\<close>

definition overload_scenario :: NetworkController where
  "overload_scenario =
     add_train
       (add_substation NetworkController_init
          (Substation_init ''SUB_1'' (SubstationConfig_init 5) \<lparr>pos_x = 0\<rparr>))
       (Train_init ''TRAIN_1'' (main_power_config 6) \<lparr>pos_x = 0\<rparr>)"

text \<open>One substation at 0 and one train at 15, out of the range of 10.\<close>

definition far_train :: Train where
  "far_train = Train_init ''TRAIN_1'' (main_power_config 4) \<lparr>pos_x = 15\<rparr>"

definition out_of_range_scenario :: NetworkController where
  "out_of_range_scenario =
     add_train
       (add_substation NetworkController_init
          (Substation_init ''SUB_1'' (SubstationConfig_init 5) \<lparr>pos_x = 0\<rparr>))
       far_train"

text \<open>One substation at 0 and one train at 0 whose phase has been set to braking: its
  draw is the regeneration value \<open>- 1.5\<close>.\<close>

definition braking_train :: Train where
  "braking_train =
     (Train_init ''TRAIN_1'' (main_power_config 10) \<lparr>pos_x = 0\<rparr>)\<lparr>current_phase := BRAKING\<rparr>"

definition braking_scenario :: NetworkController where
  "braking_scenario =
     add_train
       (add_substation NetworkController_init
          (Substation_init ''SUB_1'' (SubstationConfig_init 100) \<lparr>pos_x = 0\<rparr>))
       braking_train"

text \<open>Two substations and two trains that share an identifier.\<close>

definition first_sub :: Substation where
  "first_sub = Substation_init ''SUB_1'' (SubstationConfig_init 5) \<lparr>pos_x = 0\<rparr>"

definition second_sub :: Substation where
  "second_sub = Substation_init ''SUB_1'' (SubstationConfig_init 7) \<lparr>pos_x = 3\<rparr>"

definition first_train :: Train where
  "first_train = Train_init ''TRAIN_1'' (main_power_config 4) \<lparr>pos_x = 1\<rparr>"

definition second_train :: Train where
  "second_train = Train_init ''TRAIN_1'' (main_power_config 9) \<lparr>pos_x = 2\<rparr>"

definition registered_once :: NetworkController where
  "registered_once = add_train (add_substation NetworkController_init first_sub) first_train"

text \<open>One substation at 0 and three trains drawing 4, registered in this order: one at
  0, one at 15 (out of range) and one at 5.\<close>

definition near_train :: Train where
  "near_train = Train_init ''TRAIN_1'' (main_power_config 4) \<lparr>pos_x = 0\<rparr>"

definition lost_train :: Train where
  "lost_train = Train_init ''TRAIN_2'' (main_power_config 4) \<lparr>pos_x = 15\<rparr>"

definition later_train :: Train where
  "later_train = Train_init ''TRAIN_3'' (main_power_config 4) \<lparr>pos_x = 5\<rparr>"

definition three_train_scenario :: NetworkController where
  "three_train_scenario =
     add_train
       (add_train
          (add_train
             (add_substation NetworkController_init
                (Substation_init ''SUB_1'' (SubstationConfig_init 5) \<lparr>pos_x = 0\<rparr>))
             near_train)
          lost_train)
       later_train"

section \<open>Supporting lemmas\<close>

subsection \<open>References stay valid\<close>

lemma keys_update_present:
  "map_of subs k = Some sub \<Longrightarrow> map fst (AList.update k v subs) = map fst subs"
  by (induction subs) (auto split: if_splits)

lemma keys_distribute_power:
  "map fst (distribute_power train nearby r subs) = map fst subs"
proof (induction nearby arbitrary: r subs)
  case Nil
  show ?case by simp
next
  case (Cons p rest)
  obtain k d where p: "p = (k, d)" by (cases p)
  show ?case
    by (simp add: p Cons.IH keys_update_present Let_def split: option.split)
qed

lemma nearby_subs_of_filter:
  "nearby_subs_of subs pos md =
     map (\<lambda>p. (fst p, distance_to (Substation.position (snd p)) pos))
       (filter (\<lambda>p. distance_to (Substation.position (snd p)) pos \<le> md) subs)"
  by (induction subs pos md rule: nearby_subs_of.induct) (simp_all add: Let_def)

text \<open>Every reference returned by \<^const>\<open>get_nearest_substations\<close> is a key of the
  substation dictionary.\<close>

lemma nearest_keys_registered:
  "fst ` set (get_nearest_substations c pos md) \<subseteq> fst ` set (substations c)"
  by (force simp: get_nearest_substations_def nearby_subs_of_filter)

subsection \<open>The total load\<close>

lemma total_load_update:
  "map_of subs k = Some sub \<Longrightarrow>
     total_load (AList.update k (sub\<lparr>current_load := current_load sub + a\<rparr>) subs)
       = total_load subs + a"
  by (induction subs) (auto simp: total_load_def split: if_splits)

text \<open>The inner loop adds at most the remaining power, and nothing when none remains.\<close>

lemma total_load_distribute_power:
  "total_load (distribute_power train nearby r subs) \<le> total_load subs + max 0 r"
proof (induction nearby arbitrary: r subs)
  case Nil
  show ?case by simp
next
  case (Cons p rest)
  obtain k d where p: "p = (k, d)" by (cases p)
  show ?case
  proof (cases "r \<le> 0")
    case True
    then show ?thesis by (simp add: p)
  next
    case pos: False
    show ?thesis
    proof (cases "map_of subs k")
      case None
      with pos Cons.IH [of r subs] show ?thesis by (simp add: p)
    next
      case (Some sub)
      define a where "a = min (calculate_power_contribution sub train) r"
      have step: "distribute_power train (p # rest) r subs =
          distribute_power train rest (r - a)
            (AList.update k (sub\<lparr>current_load := current_load sub + a\<rparr>) subs)"
        using pos Some by (simp add: p a_def Let_def)
      have "a \<le> r" by (simp add: a_def)
      then have m: "max 0 (r - a) = r - a" by simp
      have "total_load (distribute_power train (p # rest) r subs)
          \<le> total_load (AList.update k (sub\<lparr>current_load := current_load sub + a\<rparr>) subs)
              + max 0 (r - a)"
        unfolding step by (rule Cons.IH)
      also have "\<dots> = total_load subs + r"
        by (simp add: total_load_update [OF Some] m)
      finally show ?thesis using pos by simp
    qed
  qed
qed

lemma sum_load_of_keys:
  "distinct (map fst subs) \<Longrightarrow> (\<Sum>k\<leftarrow>map fst subs. load_of subs k) = total_load subs"
proof (induction subs)
  case Nil
  show ?case by (simp add: total_load_def)
next
  case (Cons p subs)
  obtain k s where p: "p = (k, s)" by (cases p)
  from Cons.prems have notin: "k \<notin> set (map fst subs)" and d: "distinct (map fst subs)"
    by (simp_all add: p)
  have "map (load_of (p # subs)) (map fst subs) = map (load_of subs) (map fst subs)"
    using notin by (auto simp: load_of_def p)
  then have "(\<Sum>k'\<leftarrow>map fst subs. load_of (p # subs) k') = total_load subs"
    using Cons.IH [OF d] by (simp only:)
  then show ?case
    by (simp add: p load_of_def total_load_def)
qed

subsection \<open>What the power distribution leaves alone\<close>

lemma reset_loads_update:
  "map_of subs k = Some sub \<Longrightarrow>
     reset_loads (AList.update k (sub\<lparr>current_load := v\<rparr>) subs) = reset_loads subs"
  by (induction subs) (auto simp: reset_loads_def split: if_splits)

lemma reset_loads_distribute_power:
  "reset_loads (distribute_power train nearby r subs) = reset_loads subs"
proof (induction nearby arbitrary: r subs)
  case Nil
  show ?case by simp
next
  case (Cons p rest)
  obtain k d where p: "p = (k, d)" by (cases p)
  show ?case
    by (simp add: p Cons.IH reset_loads_update Let_def split: option.split)
qed

lemma process_train_frame:
  "reset_loads (substations (fst (process_train train st))) = reset_loads (substations (fst st))
   \<and> trains (fst (process_train train st)) = trains (fst st)
   \<and> track_length (fst (process_train train st)) = track_length (fst st)"
  by (simp add: process_train_def Let_def reset_loads_distribute_power)

lemma trains_loop_frame:
  "reset_loads (substations (fst (trains_loop ts st))) = reset_loads (substations (fst st))
   \<and> trains (fst (trains_loop ts st)) = trains (fst st)
   \<and> track_length (fst (trains_loop ts st)) = track_length (fst st)"
  by (induction ts arbitrary: st) (simp_all add: process_train_frame)

lemma reset_loads_idem: "reset_loads (reset_loads subs) = reset_loads subs"
  by (simp add: reset_loads_def case_prod_beta comp_def)

lemma update_power_distribution_reset_loads:
  "reset_loads (substations (fst (update_power_distribution c))) = reset_loads (substations c)"
  by (simp add: update_power_distribution_def trains_loop_frame reset_loads_idem)

lemma reset_loads_same_but_load:
  "reset_loads a = reset_loads b \<Longrightarrow> list_all2 same_but_load a b"
proof (induction a arbitrary: b)
  case Nil
  then show ?case by (simp add: reset_loads_def)
next
  case (Cons p a)
  then obtain q b' where b: "b = q # b'" by (cases b) (auto simp: reset_loads_def)
  from Cons.prems
  have hd: "(fst p, snd p\<lparr>current_load := 0\<rparr>) = (fst q, snd q\<lparr>current_load := 0\<rparr>)"
    and tl: "reset_loads a = reset_loads b'"
    by (simp_all add: b reset_loads_def case_prod_beta)
  from hd have key: "fst p = fst q"
    and e: "snd p\<lparr>current_load := 0\<rparr> = snd q\<lparr>current_load := 0\<rparr>"
    by simp_all
  from e have "sub_id (snd p) = sub_id (snd q)" "config (snd p) = config (snd q)"
    "Substation.position (snd p) = Substation.position (snd q)"
    "is_congested (snd p) = is_congested (snd q)"
    by (cases "snd p"; cases "snd q"; simp)+
  with key have "same_but_load p q" by (simp add: same_but_load_def)
  with Cons.IH [OF tl] show ?case by (simp add: b)
qed

lemma reset_loads_flags:
  "reset_loads a = reset_loads b \<Longrightarrow>
     map (\<lambda>p. is_congested (snd p)) a = map (\<lambda>p. is_congested (snd p)) b"
proof -
  assume eq: "reset_loads a = reset_loads b"
  have "map (\<lambda>p. is_congested (snd p)) (reset_loads xs) = map (\<lambda>p. is_congested (snd p)) xs"
    for xs by (simp add: reset_loads_def case_prod_beta comp_def)
  from this [of a] this [of b] eq show ?thesis by simp
qed

subsection \<open>The loop over the trains\<close>

lemma trains_loop_fold: "trains_loop ts st = fold process_train ts st"
  by (induction ts arbitrary: st) simp_all

lemma trains_loop_append:
  "trains_loop (ts @ us) st = trains_loop us (trains_loop ts st)"
  by (simp add: trains_loop_fold)

lemma nearby_subs_of_reset_loads:
  "nearby_subs_of (reset_loads subs) pos md = nearby_subs_of subs pos md"
  by (induction subs pos md rule: nearby_subs_of.induct) (simp_all add: reset_loads_def Let_def)

lemma nearest_only_positions:
  assumes "reset_loads (substations c') = reset_loads (substations c)"
  shows "get_nearest_substations c' pos md = get_nearest_substations c pos md"
proof -
  have "nearby_subs_of (substations c') pos md = nearby_subs_of (reset_loads (substations c')) pos md"
    by (simp add: nearby_subs_of_reset_loads)
  also have "\<dots> = nearby_subs_of (substations c) pos md"
    by (simp add: assms nearby_subs_of_reset_loads)
  finally show ?thesis by (simp add: get_nearest_substations_def)
qed

text \<open>The substations after the loop depend on the substations before it and on the
  trains processed, not on the lines printed or the other fields of the controller.\<close>

lemma process_train_substations_cong:
  assumes "substations c = substations c'"
  shows "substations (fst (process_train t (c, out))) = substations (fst (process_train t (c', out')))"
  using assms by (simp add: process_train_def Let_def get_nearest_substations_def)

lemma trains_loop_substations_cong:
  "substations (fst st) = substations (fst st') \<Longrightarrow>
     substations (fst (trains_loop ts st)) = substations (fst (trains_loop ts st'))"
proof (induction ts arbitrary: st st')
  case Nil
  then show ?case by simp
next
  case (Cons t ts)
  have "substations (fst (process_train t st)) = substations (fst (process_train t st'))"
    using process_train_substations_cong [OF Cons.prems, of t "snd st" "snd st'"] by simp
  from Cons.IH [OF this] show ?case by simp
qed

lemma list_all2_map_self:
  "(\<And>x. x \<in> set xs \<Longrightarrow> P x (f x)) \<Longrightarrow> list_all2 P xs (map f xs)"
  by (induction xs) simp_all

lemma congestion_updated_status:
  "congestion_updated p (fst p, update_congestion_status (snd p))"
  by (simp add: congestion_updated_def update_congestion_status_def)

text \<open>All the definitions that a concrete configuration unfolds to.\<close>

lemmas scenario_defs =
  two_station_scenario_def two_station_train_def overload_scenario_def far_train_def
  out_of_range_scenario_def braking_train_def braking_scenario_def first_sub_def
  second_sub_def first_train_def second_train_def registered_once_def main_power_config_def
  three_train_scenario_def near_train_def lost_train_def later_train_def
  add_train_def add_substation_def NetworkController_init_def Substation_init_def
  SubstationConfig_init_def Train_init_def

lemmas run_defs =
  update_power_distribution_def reset_loads_def process_train_def
  get_nearest_substations_def default_max_distance_def distance_to_def
  get_current_power_draw_def calculate_power_contribution_def max_range_def Let_def

section \<open>The claims\<close>

subsection \<open>C1: the load attributed to one train\<close>

text \<open>
  C1 as stated: for every registered train, the sum over all substations of the load
  attributed to the train never exceeds the train's \<^verbatim>\<open>get_current_power_draw()\<close>.
  This fails for a train whose draw is negative: the loop stops at once
  (\<^verbatim>\<open>if remaining_power <= 0: break\<close>), so the attributed load is 0, which exceeds
  the draw of \<open>- 1.5\<close>.
\<close>

theorem attributed_load_exceeds_negative_draw:
  "(\<Sum>k\<leftarrow>map fst (substations braking_scenario). load_attributed braking_train braking_scenario k) = 0
   \<and> get_current_power_draw braking_train = - (3 / 2)
   \<and> \<not> (\<Sum>k\<leftarrow>map fst (substations braking_scenario).
            load_attributed braking_train braking_scenario k)
          \<le> get_current_power_draw braking_train"
  by (simp add: load_attributed_def load_of_def scenario_defs run_defs)

text \<open>
  C1, amended: for every train and every state of a controller whose substation keys are
  distinct (as the keys of a dictionary are), the sum over all substations of the load
  attributed to the train by one run of the loop body never exceeds the larger of 0 and
  the train's \<^verbatim>\<open>get_current_power_draw()\<close>; so it never exceeds a draw that is not
  negative.
\<close>

theorem attributed_load_bounded:
  assumes "distinct (map fst (substations c))"
  shows "(\<Sum>k\<leftarrow>map fst (substations c). load_attributed train c k)
            \<le> max 0 (get_current_power_draw train)"
proof -
  let ?subs = "substations c"
  let ?subs' = "substations (fst (process_train train (c, [])))"
  have keys: "map fst ?subs' = map fst ?subs"
    by (simp add: process_train_def Let_def keys_distribute_power)
  have bound: "total_load ?subs' \<le> total_load ?subs + max 0 (get_current_power_draw train)"
    using total_load_distribute_power by (simp add: process_train_def Let_def)
  have "(\<Sum>k\<leftarrow>map fst ?subs. load_attributed train c k)
      = (\<Sum>k\<leftarrow>map fst ?subs. load_of ?subs' k) - (\<Sum>k\<leftarrow>map fst ?subs. load_of ?subs k)"
    unfolding load_attributed_def by (rule sum_list_subtractf)
  also have "(\<Sum>k\<leftarrow>map fst ?subs. load_of ?subs' k) = total_load ?subs'"
    using sum_load_of_keys [of ?subs'] assms keys by simp
  also have "(\<Sum>k\<leftarrow>map fst ?subs. load_of ?subs k) = total_load ?subs"
    using sum_load_of_keys [OF assms] .
  finally show ?thesis using bound by simp
qed

theorem attributed_load_bounded_witness:
  "distinct (map fst (substations two_station_scenario))
   \<and> (\<Sum>k\<leftarrow>map fst (substations two_station_scenario).
         load_attributed two_station_train two_station_scenario k)
       \<le> max 0 (get_current_power_draw two_station_train)"
proof -
  have d: "distinct (map fst (substations two_station_scenario))"
    by (simp add: scenario_defs)
  show ?thesis
    using d attributed_load_bounded [OF d, of two_station_train] by (rule conjI)
qed

subsection \<open>C2: who updates the congestion flags\<close>

text \<open>
  C2 as stated: \<^verbatim>\<open>update_power_distribution\<close> itself calls
  \<^verbatim>\<open>update_congestion_status\<close> on every substation, so that no flag is stale when it
  returns. This fails: with a threshold of 5 and a train drawing 6 at the substation, the
  call returns with load 6 and the flag still false.
\<close>

theorem update_power_distribution_leaves_flag_stale:
  "map (\<lambda>p. (current_load (snd p), max_power (config (snd p)), is_congested (snd p)))
       (substations (fst (update_power_distribution overload_scenario))) = [(6, 5, False)]
   \<and> \<not> congestion_consistent (substations (fst (update_power_distribution overload_scenario)))"
  by (simp add: congestion_consistent_def scenario_defs run_defs)

text \<open>
  C2, amended: \<^verbatim>\<open>update_power_distribution\<close> leaves every congestion flag as it
  was; it is the time step of \<^verbatim>\<open>main\<close> that calls \<^verbatim>\<open>update_congestion_status\<close> on
  every substation after the power distribution. When that step is done the substations,
  their loads, the trains, the track length and the lines printed are those that
  \<^verbatim>\<open>update_power_distribution\<close> returned, and every flag says whether the load just
  computed exceeds \<^verbatim>\<open>max_power\<close>, so no flag is stale.
\<close>

theorem timestep_congestion_consistent:
  "congestion_consistent (substations (fst (timestep c)))
   \<and> map (\<lambda>p. is_congested (snd p)) (substations (fst (update_power_distribution c)))
       = map (\<lambda>p. is_congested (snd p)) (substations c)
   \<and> list_all2 congestion_updated
       (substations (fst (update_power_distribution c))) (substations (fst (timestep c)))
   \<and> trains (fst (timestep c)) = trains (fst (update_power_distribution c))
   \<and> track_length (fst (timestep c)) = track_length (fst (update_power_distribution c))
   \<and> snd (timestep c) = snd (update_power_distribution c)"
proof (intro conjI)
  show "congestion_consistent (substations (fst (timestep c)))"
    by (simp add: timestep_def update_all_congestion_def congestion_consistent_def Let_def
        list_all_iff update_congestion_status_def case_prod_beta)
  show "map (\<lambda>p. is_congested (snd p)) (substations (fst (update_power_distribution c)))
       = map (\<lambda>p. is_congested (snd p)) (substations c)"
    by (rule reset_loads_flags) (rule update_power_distribution_reset_loads)
  have subs: "substations (fst (timestep c)) =
      map (\<lambda>p. (fst p, update_congestion_status (snd p)))
        (substations (fst (update_power_distribution c)))"
    by (simp add: timestep_def update_all_congestion_def Let_def case_prod_beta)
  show "list_all2 congestion_updated
       (substations (fst (update_power_distribution c))) (substations (fst (timestep c)))"
    unfolding subs by (rule list_all2_map_self) (rule congestion_updated_status)
  show "trains (fst (timestep c)) = trains (fst (update_power_distribution c))"
    by (simp add: timestep_def update_all_congestion_def Let_def)
  show "track_length (fst (timestep c)) = track_length (fst (update_power_distribution c))"
    by (simp add: timestep_def update_all_congestion_def Let_def)
  show "snd (timestep c) = snd (update_power_distribution c)"
    by (simp add: timestep_def Let_def)
qed

subsection \<open>C3: the contribution of a substation\<close>

text \<open>
  C3: for every substation \<open>s\<close> and train \<open>v\<close> at distance \<open>d\<close>,
  \<^verbatim>\<open>calculate_power_contribution\<close> returns 0 if \<open>d > 10\<close>, exactly the train's draw
  if \<open>d = 0\<close>, and otherwise the draw times \<open>(10 - d) / 10\<close>.
\<close>

theorem calculate_power_contribution_cases:
  "calculate_power_contribution s v =
     (let d = distance_to (Substation.position s) (Train.position v) in
      if d > 10 then 0
      else if d = 0 then get_current_power_draw v
      else get_current_power_draw v * (10 - d) / 10)"
  by (simp add: calculate_power_contribution_def max_range_def Let_def)

subsection \<open>C4: the nearest substations\<close>

text \<open>
  C4: for every position and bound, \<^verbatim>\<open>get_nearest_substations\<close> returns exactly the
  registered substations whose distance to the position is at most the bound (each one
  once, as a multiset), each paired with its distance, and the list is sorted in
  ascending order of distance. The default bound is 10.
\<close>

theorem get_nearest_substations_exact_sorted:
  "mset (get_nearest_substations c pos md) =
     mset (map (\<lambda>p. (fst p, distance_to (Substation.position (snd p)) pos))
            (filter (\<lambda>p. distance_to (Substation.position (snd p)) pos \<le> md) (substations c)))
   \<and> sorted (map snd (get_nearest_substations c pos md))
   \<and> default_max_distance = 10"
  by (simp add: get_nearest_substations_def nearby_subs_of_filter default_max_distance_def)

subsection \<open>C5: a train out of range\<close>

text \<open>
  C5: let a registered train have no substation within the default range, so that
  \<^verbatim>\<open>get_nearest_substations\<close> returns the empty list for it. Then one run of
  \<^verbatim>\<open>update_power_distribution\<close> is: the loop body on the trains registered before it,
  then the warning for this train printed with the controller left as it is, then the loop
  body on every train registered after it. The loads of all substations are those of the run
  without this train: no load is added for it, and the trains after it are still served.
  Nothing is raised: the functions of the embedding are total where the source raises
  nothing.
\<close>

theorem out_of_range_train_skipped:
  assumes far: "get_nearest_substations c (Train.position train) default_max_distance = []"
      and reg: "trains c = pre @ (k, train) # post"
  shows "update_power_distribution c =
           fold process_train (map snd post)
             (fst (fold process_train (map snd pre) (c\<lparr>substations := reset_loads (substations c)\<rparr>, [])),
              snd (fold process_train (map snd pre) (c\<lparr>substations := reset_loads (substations c)\<rparr>, []))
                @ [out_of_range_warning train])
         \<and> substations (fst (update_power_distribution c))
             = substations (fst (update_power_distribution (c\<lparr>trains := pre @ post\<rparr>)))"
proof -
  let ?c0 = "c\<lparr>substations := reset_loads (substations c)\<rparr>"
  let ?c1 = "c\<lparr>trains := pre @ post, substations := reset_loads (substations c)\<rparr>"
  let ?pre = "trains_loop (map snd pre) (?c0, [])"
  have frame: "reset_loads (substations (fst ?pre)) = reset_loads (substations c)"
    using trains_loop_frame [of "map snd pre" "(?c0, [])"] by (simp add: reset_loads_idem)
  have far': "get_nearest_substations (fst ?pre) (Train.position train) default_max_distance = []"
    using nearest_only_positions [OF frame] far by simp
  have step: "process_train train ?pre = (fst ?pre, snd ?pre @ [out_of_range_warning train])"
    using far' by (simp add: process_train_def Let_def)
  have run: "update_power_distribution c =
      trains_loop (map snd post) (fst ?pre, snd ?pre @ [out_of_range_warning train])"
    by (simp add: update_power_distribution_def reg trains_loop_append step)
  have without: "update_power_distribution (c\<lparr>trains := pre @ post\<rparr>) =
      trains_loop (map snd post) (trains_loop (map snd pre) (?c1, []))"
    by (simp add: update_power_distribution_def trains_loop_append)
  have pre_eq: "substations (fst ?pre)
      = substations (fst (trains_loop (map snd pre) (?c1, [])))"
    by (rule trains_loop_substations_cong) simp
  have same: "substations (fst (trains_loop (map snd post)
          (fst ?pre, snd ?pre @ [out_of_range_warning train])))
      = substations (fst (trains_loop (map snd post)
          (trains_loop (map snd pre) (?c1, []))))"
    by (rule trains_loop_substations_cong) (simp add: pre_eq)
  show ?thesis
    using run same by (simp add: without trains_loop_fold)
qed

theorem out_of_range_train_skipped_witness:
  "get_nearest_substations three_train_scenario (Train.position lost_train) default_max_distance = []
   \<and> trains three_train_scenario
       = [(''TRAIN_1'', near_train)] @ (''TRAIN_2'', lost_train) # [(''TRAIN_3'', later_train)]
   \<and> map (\<lambda>p. (fst p, current_load (snd p)))
       (substations (fst (update_power_distribution three_train_scenario))) = [(''SUB_1'', 6)]
   \<and> snd (update_power_distribution three_train_scenario)
       = [''Warning: Train TRAIN_2 is out of range of any substation!'']"
proof -
  have far: "get_nearest_substations three_train_scenario (Train.position lost_train)
      default_max_distance = []"
    by (simp add: scenario_defs run_defs)
  have reg: "trains three_train_scenario
       = [(''TRAIN_1'', near_train)] @ (''TRAIN_2'', lost_train) # [(''TRAIN_3'', later_train)]"
    by (simp add: scenario_defs)
  have upd: "update_power_distribution three_train_scenario =
     fold process_train (map snd [(''TRAIN_3'', later_train)])
       (fst (fold process_train (map snd [(''TRAIN_1'', near_train)])
          (three_train_scenario\<lparr>substations := reset_loads (substations three_train_scenario)\<rparr>, [])),
        snd (fold process_train (map snd [(''TRAIN_1'', near_train)])
          (three_train_scenario\<lparr>substations := reset_loads (substations three_train_scenario)\<rparr>, []))
          @ [out_of_range_warning lost_train])"
    using out_of_range_train_skipped [OF far reg] by (rule conjunct1)
  have loads: "map (\<lambda>p. (fst p, current_load (snd p)))
       (substations (fst (update_power_distribution three_train_scenario))) = [(''SUB_1'', 6)]"
    by (simp add: upd) (simp add: scenario_defs run_defs)
  have lines: "snd (update_power_distribution three_train_scenario)
       = [''Warning: Train TRAIN_2 is out of range of any substation!'']"
    by (simp add: upd) (simp add: scenario_defs run_defs out_of_range_warning_def)
  from far reg loads lines show ?thesis by (intro conjI)
qed

subsection \<open>C6: the congestion flag\<close>

text \<open>
  C6: \<^verbatim>\<open>update_congestion_status\<close> sets the flag of the substation to true if and only
  if the substation's load strictly exceeds its \<^verbatim>\<open>max_power\<close>, and changes nothing
  else, so that afterwards the flag is true if and only if the current load strictly
  exceeds \<^verbatim>\<open>max_power\<close>; a load equal to \<^verbatim>\<open>max_power\<close> gives a false flag.
\<close>

theorem update_congestion_status_flag:
  "is_congested (update_congestion_status s) = (current_load s > max_power (config s))
   \<and> current_load (update_congestion_status s) = current_load s
   \<and> config (update_congestion_status s) = config s
   \<and> sub_id (update_congestion_status s) = sub_id s
   \<and> Substation.position (update_congestion_status s) = Substation.position s
   \<and> is_congested (update_congestion_status s)
     = (current_load (update_congestion_status s) > max_power (config (update_congestion_status s)))
   \<and> \<not> is_congested (update_congestion_status (s\<lparr>current_load := max_power (config s)\<rparr>))"
  by (simp add: update_congestion_status_def)

subsection \<open>C7: two substations, one train\<close>

text \<open>
  C7: with substations at 0 and 8 (threshold 100 each, registered in that order) and one
  train at 4 drawing 10, both substations are at distance 4 and the first registered
  comes first; one run of \<^verbatim>\<open>update_power_distribution\<close> gives load 6 to the first
  registered substation and load 4 to the other, 10 in total.
\<close>

theorem two_station_allocation:
  "get_nearest_substations two_station_scenario (Train.position two_station_train)
       default_max_distance = [(''SUB_1'', 4), (''SUB_2'', 4)]
   \<and> get_current_power_draw two_station_train = 10
   \<and> map (\<lambda>p. (fst p, current_load (snd p)))
       (substations (fst (update_power_distribution two_station_scenario)))
       = [(''SUB_1'', 6), (''SUB_2'', 4)]
   \<and> total_load (substations (fst (update_power_distribution two_station_scenario))) = 10"
  by (simp add: total_load_def scenario_defs run_defs)

subsection \<open>C8: a duplicate identifier\<close>

text \<open>
  C8 as stated: registering an entity under an identifier that is already registered
  fails fast. This fails: \<^verbatim>\<open>add_substation\<close> and \<^verbatim>\<open>add_train\<close> assign into the
  dictionary, so the second entity silently takes the place of the first, where
  registration as the specification words it returns an error.
\<close>

theorem duplicate_silently_accepted:
  "substations (add_substation registered_once second_sub) = [(''SUB_1'', second_sub)]
   \<and> trains (add_train registered_once second_train) = [(''TRAIN_1'', second_train)]
   \<and> add_substation_fail_fast registered_once second_sub = Inl DuplicateIdentifier
   \<and> add_train_fail_fast registered_once second_train = Inl DuplicateIdentifier"
  by (simp add: add_substation_fail_fast_def add_train_fail_fast_def scenario_defs)

text \<open>
  C8, amended: registering a substation or a train under an identifier that is already
  registered does not fail: the new entity replaces the one registered under that
  identifier, the registered identifiers and their order stay as they were, every other
  entry stays as it was, and \<^verbatim>\<open>add_substation\<close> still raises the track length to the
  new position if that is larger.
\<close>

theorem duplicate_registration_replaces:
  "(sub_id s \<in> set (map fst (substations c)) \<longrightarrow>
      map fst (substations (add_substation c s)) = map fst (substations c) \<and>
      map_of (substations (add_substation c s)) = (map_of (substations c))(sub_id s \<mapsto> s) \<and>
      trains (add_substation c s) = trains c \<and>
      track_length (add_substation c s) = max (track_length c) (pos_x (Substation.position s)))
   \<and> (train_id t \<in> set (map fst (trains c)) \<longrightarrow>
      map fst (trains (add_train c t)) = map fst (trains c) \<and>
      map_of (trains (add_train c t)) = (map_of (trains c))(train_id t \<mapsto> t) \<and>
      substations (add_train c t) = substations c \<and>
      track_length (add_train c t) = track_length c)"
  by (simp add: add_substation_def add_train_def update_keys update_conv')

theorem duplicate_registration_replaces_witness:
  "sub_id second_sub \<in> set (map fst (substations registered_once))
   \<and> train_id second_train \<in> set (map fst (trains registered_once))
   \<and> map fst (substations (add_substation registered_once second_sub)) = [''SUB_1'']
   \<and> map_of (substations (add_substation registered_once second_sub)) ''SUB_1'' = Some second_sub
   \<and> track_length (add_substation registered_once second_sub) = 3
   \<and> map fst (trains (add_train registered_once second_train)) = [''TRAIN_1'']
   \<and> map_of (trains (add_train registered_once second_train)) ''TRAIN_1'' = Some second_train"
proof -
  have hs: "sub_id second_sub \<in> set (map fst (substations registered_once))"
    and ht: "train_id second_train \<in> set (map fst (trains registered_once))"
    by (simp_all add: scenario_defs)
  have ks: "map fst (substations registered_once) = [''SUB_1'']"
    and kt: "map fst (trains registered_once) = [''TRAIN_1'']"
    and ids: "sub_id second_sub = ''SUB_1''" "train_id second_train = ''TRAIN_1''"
    and len: "track_length registered_once = 0" "pos_x (Substation.position second_sub) = 3"
    by (simp_all add: scenario_defs)
  from duplicate_registration_replaces [of second_sub registered_once second_train] hs ht
  show ?thesis by (simp add: ks kt ids len)
qed

subsection \<open>C9: a train that draws nothing\<close>

text \<open>
  C9: for every train whose \<^verbatim>\<open>get_current_power_draw()\<close> is zero or negative, the loop
  body leaves every substation as it is: no load, and no negative load either, is added
  to any substation for that train.
\<close>

theorem nonpositive_draw_adds_no_load:
  assumes "get_current_power_draw train \<le> 0"
  shows "substations (fst (process_train train (c, out))) = substations c"
proof (cases "get_nearest_substations c (Train.position train) default_max_distance")
  case Nil
  then show ?thesis by (simp add: process_train_def)
next
  case (Cons p rest)
  obtain k d where p: "p = (k, d)" by (cases p)
  with Cons assms show ?thesis by (simp add: process_train_def Let_def)
qed

theorem nonpositive_draw_adds_no_load_witness:
  "get_current_power_draw braking_train \<le> 0
   \<and> get_nearest_substations braking_scenario (Train.position braking_train)
       default_max_distance = [(''SUB_1'', 0)]
   \<and> substations (fst (process_train braking_train (braking_scenario, [])))
       = substations braking_scenario"
proof -
  have h: "get_current_power_draw braking_train \<le> 0"
    by (simp add: scenario_defs run_defs)
  have n: "get_nearest_substations braking_scenario (Train.position braking_train)
       default_max_distance = [(''SUB_1'', 0)]"
    by (simp add: scenario_defs run_defs)
  from h n nonpositive_draw_adds_no_load [OF h, of braking_scenario "[]"]
  show ?thesis by blast
qed

subsection \<open>C10: the frame of the power distribution\<close>

text \<open>
  C10: \<^verbatim>\<open>update_power_distribution\<close> changes only the \<^verbatim>\<open>current_load\<close> of
  substations: the dictionary of trains (so every train's position, phase and power
  configuration), the keys of the substation dictionary and every substation's
  identifier, position, configuration and congestion flag, and the track length are as
  before the call.
\<close>

theorem update_power_distribution_frame:
  "list_all2 same_but_load (substations c) (substations (fst (update_power_distribution c)))
   \<and> trains (fst (update_power_distribution c)) = trains c
   \<and> track_length (fst (update_power_distribution c)) = track_length c"
proof -
  have "reset_loads (substations c) = reset_loads (substations (fst (update_power_distribution c)))"
    by (simp add: update_power_distribution_reset_loads)
  then show ?thesis
    by (simp add: reset_loads_same_but_load update_power_distribution_def trains_loop_frame)
qed

end
